theory Spec2Isabelle
  imports Main "HOL-Library.Word"
begin

section \<open>Package filter: tables, rules and the black/white list filter\<close>

text \<open>
  Embedding of the second part of \<^verbatim>\<open>syncer/filter.go\<close> (\<^verbatim>\<open>package filter\<close>).
  Go strings are byte sequences and so are the strings here.  A pointer that the code
  compares with \<^verbatim>\<open>nil\<close> is an \<open>option\<close>; a panic is the left summand of a sum.
\<close>

record Table =
  Schema :: string
  Name :: string

record Rules =
  DoTables :: "Table list"
  DoDBs :: "string list"
  IgnoreTables :: "Table list"
  IgnoreDBs :: "string list"

text \<open>
  A compiled \<^verbatim>\<open>*regexp.Regexp\<close> of Go's standard library is an object; the filter
  calls one method of it, \<^verbatim>\<open>MatchString\<close>, so the object is the record of that method.
\<close>

record Regexp =
  MatchString :: "string \<Rightarrow> bool"

record Filter =
  patternMap :: "string \<rightharpoonup> Regexp"
  rules :: "Rules option"

datatype panic =
    Index_out_of_range
  | Regexp_compile string
  | Nil_dereference

subsection \<open>Matching\<close>

definition matchString :: "Filter \<Rightarrow> string \<Rightarrow> string \<Rightarrow> bool" where
  "matchString f pattern t =
     (case patternMap f pattern of
        Some re \<Rightarrow> MatchString re t
      | None \<Rightarrow> pattern = t)"

fun matchDB :: "Filter \<Rightarrow> string list \<Rightarrow> string \<Rightarrow> bool" where
  "matchDB f [] a = False"
| "matchDB f (b # patternDBS) a =
     (if matchString f b a then True else matchDB f patternDBS a)"

fun matchTable :: "Filter \<Rightarrow> Table list \<Rightarrow> Table \<Rightarrow> bool" where
  "matchTable f [] tb = False"
| "matchTable f (ptb # patternTBS) tb =
     (if matchString f (Schema ptb) (Schema tb) \<and> matchString f (Name ptb) (Name tb)
      then True else matchTable f patternTBS tb)"

text \<open>
  The methods below read \<^verbatim>\<open>f.rules\<close> without a nil check; their only caller,
  \<^verbatim>\<open>ApplyOn\<close>, has made it.  The argument \<open>r\<close> is the dereferenced \<^verbatim>\<open>*f.rules\<close>.
\<close>

definition findMatchedDoDBs :: "Filter \<Rightarrow> Rules \<Rightarrow> Table \<Rightarrow> bool" where
  "findMatchedDoDBs f r tb = matchDB f (DoDBs r) (Schema tb)"

definition findMatchedIgnoreDBs :: "Filter \<Rightarrow> Rules \<Rightarrow> Table \<Rightarrow> bool" where
  "findMatchedIgnoreDBs f r tb = matchDB f (IgnoreDBs r) (Schema tb)"

definition findMatchedDoTables :: "Filter \<Rightarrow> Rules \<Rightarrow> Table \<Rightarrow> bool" where
  "findMatchedDoTables f r tb = matchTable f (DoTables r) tb"

definition findMatchedIgnoreTables :: "Filter \<Rightarrow> Rules \<Rightarrow> Table \<Rightarrow> bool" where
  "findMatchedIgnoreTables f r tb = matchTable f (IgnoreTables r) tb"

definition filterOnSchemas :: "Filter \<Rightarrow> Rules \<Rightarrow> Table \<Rightarrow> bool" where
  "filterOnSchemas f r tb =
     (if length (DoDBs r) > 0 then
        (if \<not> findMatchedDoDBs f r tb then False else True)
      else if length (IgnoreDBs r) > 0 then
        (if findMatchedIgnoreDBs f r tb then False else True)
      else True)"

definition filterOnTables :: "Filter \<Rightarrow> Rules \<Rightarrow> Table \<Rightarrow> bool" where
  "filterOnTables f r tb =
     (if length (Name tb) = 0 then True
      else if length (DoTables r) > 0 \<and> findMatchedDoTables f r tb then True
      else if length (IgnoreTables r) > 0 \<and> findMatchedIgnoreTables f r tb then False
      else length (DoTables r) = 0)"

fun ApplyOn_loop :: "Filter \<Rightarrow> Rules \<Rightarrow> Table list \<Rightarrow> Table list \<Rightarrow> Table list" where
  "ApplyOn_loop f r tbs [] = tbs"
| "ApplyOn_loop f r tbs (tb # stbs) =
     (if filterOnSchemas f r tb \<and> filterOnTables f r tb
      then ApplyOn_loop f r (tbs @ [tb]) stbs
      else ApplyOn_loop f r tbs stbs)"

definition ApplyOn :: "Filter option \<Rightarrow> Table list \<Rightarrow> Table list" where
  "ApplyOn fo stbs =
     (case fo of
        None \<Rightarrow> stbs
      | Some f \<Rightarrow>
          (case rules f of
             None \<Rightarrow> stbs
           | Some r \<Rightarrow> ApplyOn_loop f r [] stbs))"

section \<open>Go's \<^verbatim>\<open>strings\<close> and \<^verbatim>\<open>regexp\<close> packages\<close>

text \<open>
  The program calls \<^verbatim>\<open>strings.ToLower\<close>, \<^verbatim>\<open>strings.Join\<close>, \<^verbatim>\<open>regexp.MustCompile\<close>
  and the methods \<^verbatim>\<open>MatchString\<close> and \<^verbatim>\<open>FindStringIndex\<close> of Go's standard library.
  The library is not part of the repository.  The functions of the filter take the
  compiler as a parameter; the definitions of this section are a model of the library
  after its documentation, used where a statement is about concrete patterns.  The model
  covers ASCII text and this fragment of the RE2 syntax: literal characters, escaped
  punctuation, the Perl classes \<^verbatim>\<open>\d \D \s \S \w \W\<close>, the dot, \<^verbatim>\<open>^\<close> and \<^verbatim>\<open>$\<close>
  (without the multi-line flag: begin and end of the text), groups, alternation, the
  repetitions \<^verbatim>\<open>* + ?\<close> with their non-greedy forms, and the flag group \<^verbatim>\<open>(?i)\<close>.
  A pattern outside the fragment (a bracket class, a counted repetition, another flag or
  escape, a byte above 127) is not compiled by the model, although Go may accept it: the
  model says nothing about such a pattern.
\<close>

definition toLower_byte :: "char \<Rightarrow> char" where
  "toLower_byte c =
     (case map_of (zip ''ABCDEFGHIJKLMNOPQRSTUVWXYZ'' ''abcdefghijklmnopqrstuvwxyz'') c of
        Some l \<Rightarrow> l
      | None \<Rightarrow> c)"

definition strings_ToLower :: "string \<Rightarrow> string" where
  "strings_ToLower s = map toLower_byte s"

fun strings_Join :: "string list \<Rightarrow> string \<Rightarrow> string" where
  "strings_Join [] sep = []"
| "strings_Join [a] sep = a"
| "strings_Join (a # b # rest) sep = a @ sep @ strings_Join (b # rest) sep"

subsection \<open>Syntax trees\<close>

datatype perl_class = Digit | Space | Word

text \<open>
  The constructors carry the names of the operators of \<^verbatim>\<open>regexp/syntax\<close>.  The flag of
  \<open>Literal\<close> is the fold-case flag; the flag of a repetition is the non-greedy flag, which
  decides which match is preferred and not whether there is one.
\<close>

datatype regex =
    EmptyMatch
  | Literal bool char
  | AnyCharNotNL
  | CharClass perl_class bool
  | BeginText
  | EndText
  | Concat regex regex
  | Alternate regex regex
  | Star bool regex
  | Plus bool regex
  | Quest bool regex

definition in_class :: "perl_class \<Rightarrow> char \<Rightarrow> bool" where
  "in_class k c =
     (case k of
        Digit \<Rightarrow> c \<in> set ''0123456789''
      | Space \<Rightarrow> c \<in> set [CHR 0x09, CHR 0x0A, CHR 0x0C, CHR 0x0D, CHR '' '']
      | Word \<Rightarrow> c \<in> set (''0123456789'' @ ''ABCDEFGHIJKLMNOPQRSTUVWXYZ''
                          @ ''abcdefghijklmnopqrstuvwxyz'' @ ''_''))"

subsection \<open>Matching\<close>

text \<open>
  A position in the text is the rest of the text together with the flag "nothing has
  been read yet".  \<open>run r p\<close> lists the positions at which a match of \<open>r\<close> that begins at
  \<open>p\<close> can end.  An iteration of a starred expression that reads nothing does not change
  the position, so \<open>iterate\<close> follows only the iterations that read something, and as
  many rounds as there are characters left suffice.
\<close>

type_synonym pos = "bool \<times> string"

fun one_char :: "(char \<Rightarrow> bool) \<Rightarrow> pos \<Rightarrow> pos list" where
  "one_char P (b, []) = []"
| "one_char P (b, c # cs) = (if P c then [(False, cs)] else [])"

fun iterate :: "(pos \<Rightarrow> pos list) \<Rightarrow> nat \<Rightarrow> pos \<Rightarrow> pos list" where
  "iterate step 0 p = [p]"
| "iterate step (Suc n) p =
     p # concat (map (iterate step n)
                  (filter (\<lambda>q. length (snd q) < length (snd p)) (step p)))"

fun run :: "regex \<Rightarrow> pos \<Rightarrow> pos list" where
  "run EmptyMatch p = [p]"
| "run (Literal fc c) p =
     one_char (\<lambda>x. if fc then toLower_byte x = toLower_byte c else x = c) p"
| "run AnyCharNotNL p = one_char (\<lambda>x. x \<noteq> CHR 0x0A) p"
| "run (CharClass k neg) p = one_char (\<lambda>x. in_class k x \<noteq> neg) p"
| "run BeginText p = (if fst p then [p] else [])"
| "run EndText p = (if snd p = [] then [p] else [])"
| "run (Concat r1 r2) p = concat (map (run r2) (run r1 p))"
| "run (Alternate r1 r2) p = run r1 p @ run r2 p"
| "run (Star ng r) p = iterate (run r) (length (snd p)) p"
| "run (Plus ng r) p = concat (map (\<lambda>q. iterate (run r) (length (snd q)) q) (run r p))"
| "run (Quest ng r) p = run r p @ [p]"

text \<open>\<open>search r True s\<close>: some substring of \<open>s\<close> matches \<open>r\<close>.\<close>

fun search :: "regex \<Rightarrow> bool \<Rightarrow> string \<Rightarrow> bool" where
  "search r b [] = (run r (b, []) \<noteq> [])"
| "search r b (c # cs) = (if run r (b, c # cs) \<noteq> [] then True else search r False cs)"

subsection \<open>Parsing\<close>

definition is_alnum :: "char \<Rightarrow> bool" where
  "is_alnum c \<longleftrightarrow>
     c \<in> set (''0123456789'' @ ''ABCDEFGHIJKLMNOPQRSTUVWXYZ'' @ ''abcdefghijklmnopqrstuvwxyz'')"

text \<open>The eighth bit of a byte: set in the bytes above 127.\<close>

definition non_ascii :: "char \<Rightarrow> bool" where
  "non_ascii c \<longleftrightarrow> digit7 c"

definition parse_escape :: "bool \<Rightarrow> char \<Rightarrow> regex option" where
  "parse_escape fc e =
     (if e = CHR ''s'' then Some (CharClass Space False)
      else if e = CHR ''S'' then Some (CharClass Space True)
      else if e = CHR ''d'' then Some (CharClass Digit False)
      else if e = CHR ''D'' then Some (CharClass Digit True)
      else if e = CHR ''w'' then Some (CharClass Word False)
      else if e = CHR ''W'' then Some (CharClass Word True)
      else if is_alnum e \<or> non_ascii e then None
      else Some (Literal fc e))"

text \<open>
  The parser reads the pattern from left to right with a stack, as the parser of
  \<^verbatim>\<open>regexp/syntax\<close> does.  A frame of the stack belongs to an open group (the lowest one
  to the whole pattern): the alternatives finished so far, the items of the alternative
  being read (both latest first) and the fold-case flag in force when the group was
  opened, which the closing parenthesis restores.  \<open>lastRepeat\<close> says that the
  previous token was a repetition operator: a second one in a row is an error, and so are
  a repetition operator with nothing to repeat, a parenthesis without its partner and a
  backslash at the end.
\<close>

type_synonym frame = "regex list \<times> regex list \<times> bool"

fun mk_concat :: "regex list \<Rightarrow> regex" where
  "mk_concat [] = EmptyMatch"
| "mk_concat [r] = r"
| "mk_concat (r # rs) = Concat r (mk_concat rs)"

fun mk_alternate :: "regex list \<Rightarrow> regex" where
  "mk_alternate [] = EmptyMatch"
| "mk_alternate [r] = r"
| "mk_alternate (r # rs) = Alternate r (mk_alternate rs)"

definition collapse :: "regex list \<Rightarrow> regex list \<Rightarrow> regex" where
  "collapse alts cur = mk_alternate (rev (mk_concat (rev cur) # alts))"

definition repeat_op :: "char \<Rightarrow> bool \<Rightarrow> regex \<Rightarrow> regex" where
  "repeat_op c ng r =
     (if c = CHR ''*'' then Star ng r else if c = CHR ''+'' then Plus ng r else Quest ng r)"

fun parse_loop :: "frame list \<Rightarrow> bool \<Rightarrow> bool \<Rightarrow> string \<Rightarrow> regex option" where
  "parse_loop [] fc lastRepeat t = None"
| "parse_loop ((alts, cur, saved) # below) fc lastRepeat [] =
     (if below = [] then Some (collapse alts cur) else None)"
| "parse_loop ((alts, cur, saved) # below) fc lastRepeat (c # t) =
     (if c = CHR ''('' then
        (if take 1 t = ''?'' then
           (if take 3 t = ''?i)''
            then parse_loop ((alts, cur, saved) # below) True False (drop 3 t)
            else None)
         else parse_loop (([], [], fc) # (alts, cur, saved) # below) fc False t)
      else if c = CHR ''|'' then
        parse_loop ((mk_concat (rev cur) # alts, [], saved) # below) fc False t
      else if c = CHR '')'' then
        (case below of
           [] \<Rightarrow> None
         | (alts', cur', saved') # below' \<Rightarrow>
             parse_loop ((alts', collapse alts cur # cur', saved') # below') saved False t)
      else if c = CHR ''*'' \<or> c = CHR ''+'' \<or> c = CHR ''?'' then
        (case cur of
           [] \<Rightarrow> None
         | r # cur1 \<Rightarrow>
             if lastRepeat then None
             else if take 1 t = ''?''
             then parse_loop ((alts, repeat_op c True r # cur1, saved) # below) fc True (drop 1 t)
             else parse_loop ((alts, repeat_op c False r # cur1, saved) # below) fc True t)
      else if c = CHR 0x5C then
        (case t of
           [] \<Rightarrow> None
         | e # t' \<Rightarrow>
             (case parse_escape fc e of
                None \<Rightarrow> None
              | Some r \<Rightarrow> parse_loop ((alts, r # cur, saved) # below) fc False t'))
      else if c = CHR ''^'' then parse_loop ((alts, BeginText # cur, saved) # below) fc False t
      else if c = CHR ''$'' then parse_loop ((alts, EndText # cur, saved) # below) fc False t
      else if c = CHR ''.'' then parse_loop ((alts, AnyCharNotNL # cur, saved) # below) fc False t
      else if c \<in> set ''[]{}'' \<or> non_ascii c then None
      else parse_loop ((alts, Literal fc c # cur, saved) # below) fc False t)"

definition syntax_Parse :: "string \<Rightarrow> regex option" where
  "syntax_Parse s = parse_loop [([], [], False)] False False s"

text \<open>
  \<^verbatim>\<open>regexp.MustCompile\<close> panics when the pattern does not parse: \<open>None\<close>.  The compiled
  object answers \<^verbatim>\<open>MatchString\<close>: does the text contain a match.
\<close>

definition regexp_MustCompile :: "string \<Rightarrow> Regexp option" where
  "regexp_MustCompile s =
     (case syntax_Parse s of
        None \<Rightarrow> None
      | Some r \<Rightarrow> Some \<lparr>MatchString = search r True\<rparr>)"

section \<open>Package filter: normalisation and construction\<close>

text \<open>
  \<^verbatim>\<open>Rules.ToLower\<close> overwrites the entries of the rule set in place; the model returns
  the new rule set.  On a nil receiver it does nothing.
\<close>

definition ToLower_table :: "Table \<Rightarrow> Table" where
  "ToLower_table table =
     (let table = table\<lparr>Name := strings_ToLower (Name table)\<rparr>
      in table\<lparr>Schema := strings_ToLower (Schema table)\<rparr>)"

definition ToLower :: "Rules option \<Rightarrow> Rules option" where
  "ToLower ro =
     (case ro of
        None \<Rightarrow> None
      | Some r \<Rightarrow>
          Some \<lparr>DoTables = map ToLower_table (DoTables r),
                DoDBs = map strings_ToLower (DoDBs r),
                IgnoreTables = map ToLower_table (IgnoreTables r),
                IgnoreDBs = map strings_ToLower (IgnoreDBs r)\<rparr>)"

text \<open>
  \<^verbatim>\<open>addOneRegex\<close>: \<^verbatim>\<open>originStr[0]\<close> panics on the empty string, and
  \<^verbatim>\<open>regexp.MustCompile\<close> (the parameter \<open>mustCompile\<close>, \<open>None\<close> for its panic) panics on a
  pattern that does not compile.  \<^verbatim>\<open>fmt.Sprintf\<close> with one \<^verbatim>\<open>%s\<close> splices the string in.
\<close>

definition addOneRegex ::
  "(string \<Rightarrow> Regexp option) \<Rightarrow> Filter \<Rightarrow> string \<Rightarrow> panic + Filter" where
  "addOneRegex mustCompile f originStr =
     (case patternMap f originStr of
        Some re \<Rightarrow> Inr f
      | None \<Rightarrow>
          (case originStr of
             [] \<Rightarrow> Inl Index_out_of_range
           | c # rest \<Rightarrow>
               (if c \<noteq> CHR ''~'' then
                  (case mustCompile (''(?i)^'' @ originStr @ ''$'') of
                     None \<Rightarrow> Inl (Regexp_compile (''(?i)^'' @ originStr @ ''$''))
                   | Some re \<Rightarrow> Inr (f\<lparr>patternMap := (patternMap f)(originStr \<mapsto> re)\<rparr>))
                else
                  (case mustCompile (''(?i)'' @ rest) of
                     None \<Rightarrow> Inl (Regexp_compile (''(?i)'' @ rest))
                   | Some re \<Rightarrow> Inr (f\<lparr>patternMap := (patternMap f)(originStr \<mapsto> re)\<rparr>)))))"

fun addDBs ::
  "(string \<Rightarrow> Regexp option) \<Rightarrow> Filter \<Rightarrow> string list \<Rightarrow> panic + Filter" where
  "addDBs mustCompile f [] = Inr f"
| "addDBs mustCompile f (db # dbs) =
     (case addOneRegex mustCompile f db of
        Inl e \<Rightarrow> Inl e
      | Inr f1 \<Rightarrow> addDBs mustCompile f1 dbs)"

fun addTables ::
  "(string \<Rightarrow> Regexp option) \<Rightarrow> Filter \<Rightarrow> Table list \<Rightarrow> panic + Filter" where
  "addTables mustCompile f [] = Inr f"
| "addTables mustCompile f (table # tables) =
     (case addOneRegex mustCompile f (Schema table) of
        Inl e \<Rightarrow> Inl e
      | Inr f1 \<Rightarrow>
          (case addOneRegex mustCompile f1 (Name table) of
             Inl e \<Rightarrow> Inl e
           | Inr f2 \<Rightarrow> addTables mustCompile f2 tables))"

definition genRegexMap :: "(string \<Rightarrow> Regexp option) \<Rightarrow> Filter \<Rightarrow> panic + Filter" where
  "genRegexMap mustCompile f =
     (case rules f of
        None \<Rightarrow> Inr f
      | Some r \<Rightarrow>
          (case addDBs mustCompile f (DoDBs r) of
             Inl e \<Rightarrow> Inl e
           | Inr f1 \<Rightarrow>
               (case addTables mustCompile f1 (DoTables r) of
                  Inl e \<Rightarrow> Inl e
                | Inr f2 \<Rightarrow>
                    (case addDBs mustCompile f2 (IgnoreDBs r) of
                       Inl e \<Rightarrow> Inl e
                     | Inr f3 \<Rightarrow> addTables mustCompile f3 (IgnoreTables r)))))"

definition New :: "(string \<Rightarrow> Regexp option) \<Rightarrow> Rules option \<Rightarrow> panic + Filter" where
  "New mustCompile rs = genRegexMap mustCompile \<lparr>patternMap = Map.empty, rules = rs\<rparr>"

text \<open>
  For the statements: the pattern strings of a rule set in the order \<^verbatim>\<open>genRegexMap\<close>
  visits them, and the regular expression that \<^verbatim>\<open>addOneRegex\<close> compiles for a pattern
  string.
\<close>

definition table_patterns :: "Table list \<Rightarrow> string list" where
  "table_patterns tbs = concat (map (\<lambda>t. [Schema t, Name t]) tbs)"

definition patterns_of :: "Rules \<Rightarrow> string list" where
  "patterns_of r =
     DoDBs r @ table_patterns (DoTables r) @ IgnoreDBs r @ table_patterns (IgnoreTables r)"

definition pattern_source :: "string \<Rightarrow> string" where
  "pattern_source originStr =
     (case originStr of
        [] \<Rightarrow> []
      | c # rest \<Rightarrow>
          if c \<noteq> CHR ''~'' then ''(?i)^'' @ originStr @ ''$'' else ''(?i)'' @ rest)"

text \<open>
  For the proofs: the loops of \<^verbatim>\<open>genRegexMap\<close> as one pass over the pattern strings,
  and the invariant of the cache, that an entry is the compiled form of its key.
\<close>

fun addAll :: "(string \<Rightarrow> Regexp option) \<Rightarrow> Filter \<Rightarrow> string list \<Rightarrow> panic + Filter" where
  "addAll mc f [] = Inr f"
| "addAll mc f (p # ps) =
     (case addOneRegex mc f p of Inl e \<Rightarrow> Inl e | Inr f1 \<Rightarrow> addAll mc f1 ps)"

definition cache_ok :: "(string \<Rightarrow> Regexp option) \<Rightarrow> Filter \<Rightarrow> bool" where
  "cache_ok mc f \<longleftrightarrow> (\<forall>p re. patternMap f p = Some re \<longrightarrow> mc (pattern_source p) = Some re)"

section \<open>Package syncer: which events are skipped\<close>

text \<open>
  Embedding of the first part of \<^verbatim>\<open>syncer/filter.go\<close>.  The patterns are the strings of
  the source; \<open>bs\<close> is the backslash, which a string literal here cannot hold.
\<close>

definition bs :: string where
  "bs = [CHR 0x5C]"

definition builtInSkipDDLs :: "string list" where
  "builtInSkipDDLs =
   [ ''^#'',
     ''^SAVEPOINT'',
     ''^FLUSH'',
     ''^OPTIMIZE'' @ bs @ ''s+TABLE'',
     ''^ANALYZE'' @ bs @ ''s+TABLE'',
     ''^REPAIR'' @ bs @ ''s+TABLE'',
     ''^DROP'' @ bs @ ''s+('' @ bs @ ''/'' @ bs @ ''*'' @ bs @ ''!40005'' @ bs
        @ ''s+)?TEMPORARY'' @ bs @ ''s+('' @ bs @ ''*'' @ bs @ ''/'' @ bs @ ''s+)?TABLE'',
     ''^CREATE'' @ bs @ ''s+(DEFINER'' @ bs @ ''s?=.+?)?TRIGGER'',
     ''^DROP'' @ bs @ ''s+TRIGGER'',
     ''^DROP'' @ bs @ ''s+PROCEDURE'',
     ''^CREATE'' @ bs @ ''s+(DEFINER'' @ bs @ ''s?=.+?)?PROCEDURE'',
     ''^ALTER'' @ bs @ ''s+PROCEDURE'',
     ''^CREATE'' @ bs @ ''s*(OR REPLACE)?'' @ bs @ ''s+(ALGORITHM'' @ bs
        @ ''s?=.+?)?(DEFINER'' @ bs @ ''s?=.+?)?'' @ bs @ ''s+(SQL SECURITY DEFINER)?VIEW'',
     ''^DROP'' @ bs @ ''s+VIEW'',
     ''^ALTER'' @ bs @ ''s+(ALGORITHM'' @ bs @ ''s?=.+?)?(DEFINER'' @ bs
        @ ''s?=.+?)?(SQL SECURITY DEFINER)?VIEW'',
     ''^CREATE'' @ bs @ ''s+(AGGREGATE)?'' @ bs @ ''s*?FUNCTION'',
     ''^CREATE'' @ bs @ ''s+(DEFINER'' @ bs @ ''s?=.+?)?FUNCTION'',
     ''^ALTER'' @ bs @ ''s+FUNCTION'',
     ''^DROP'' @ bs @ ''s+FUNCTION'',
     ''^CREATE'' @ bs @ ''s+TABLESPACE'',
     ''^ALTER'' @ bs @ ''s+TABLESPACE'',
     ''^DROP'' @ bs @ ''s+TABLESPACE'',
     ''^GRANT'',
     ''^REVOKE'',
     ''^CREATE'' @ bs @ ''s+USER'',
     ''^ALTER'' @ bs @ ''s+USER'',
     ''^RENAME'' @ bs @ ''s+USER'',
     ''^DROP'' @ bs @ ''s+USER'',
     ''^SET'' @ bs @ ''s+PASSWORD'',
     ''^ALTER DATABASE'' ]"

text \<open>
  \<^verbatim>\<open>init\<close> compiles the alternation of the patterns into the package variable
  \<^verbatim>\<open>builtInSkipDDLPatterns\<close>, or panics.  The functions that read the variable take it as
  their first argument.
\<close>

definition init :: "panic + Regexp" where
  "init =
     (case regexp_MustCompile (''(?i)'' @ strings_Join builtInSkipDDLs ''|'') of
        None \<Rightarrow> Inl (Regexp_compile (''(?i)'' @ strings_Join builtInSkipDDLs ''|''))
      | Some re \<Rightarrow> Inr re)"

text \<open>
  The event types of the binlog filter (\<^verbatim>\<open>bf\<close>, an external package) that the code
  names, and its two actions.
\<close>

datatype bf_EventType = NullEvent | InsertEvent | UpdateEvent | DeleteEvent

datatype ActionType = Ignore | Do

text \<open>
  \<^verbatim>\<open>replication.EventType\<close> is a byte.  The row events have these codes in the MySQL
  replication protocol.
\<close>

type_synonym EventType = "8 word"

definition WRITE_ROWS_EVENTv0 :: EventType where "WRITE_ROWS_EVENTv0 = 20"
definition UPDATE_ROWS_EVENTv0 :: EventType where "UPDATE_ROWS_EVENTv0 = 21"
definition DELETE_ROWS_EVENTv0 :: EventType where "DELETE_ROWS_EVENTv0 = 22"
definition WRITE_ROWS_EVENTv1 :: EventType where "WRITE_ROWS_EVENTv1 = 23"
definition UPDATE_ROWS_EVENTv1 :: EventType where "UPDATE_ROWS_EVENTv1 = 24"
definition DELETE_ROWS_EVENTv1 :: EventType where "DELETE_ROWS_EVENTv1 = 25"
definition WRITE_ROWS_EVENTv2 :: EventType where "WRITE_ROWS_EVENTv2 = 30"
definition UPDATE_ROWS_EVENTv2 :: EventType where "UPDATE_ROWS_EVENTv2 = 31"
definition DELETE_ROWS_EVENTv2 :: EventType where "DELETE_ROWS_EVENTv2 = 32"

text \<open>
  Errors: the error of the binlog filter is opaque (its message), \<^verbatim>\<open>errors.Errorf\<close> for
  the invalid event type, and \<^verbatim>\<open>errors.Annotatef\<close> with the three messages of the code.
\<close>

datatype annotation =
    Skip_query string
  | Skip_query_on string string string
  | Skip_row_event EventType string string

datatype error =
    External string
  | Invalid_replication_event_type EventType
  | Annotated error annotation

text \<open>
  The binlog filter is its method \<^verbatim>\<open>Filter(schema, table, dml, ddl, sql)\<close>.  Of the syncer
  the functions read the two fields \<^verbatim>\<open>bwList\<close> and \<^verbatim>\<open>binlogFilter\<close>.
  \<^verbatim>\<open>filter.IsSystemSchema\<close> is not in the sources at hand: the parameter \<open>isSystemSchema\<close>.
\<close>

type_synonym BinlogEvent =
  "string \<Rightarrow> string \<Rightarrow> bf_EventType \<Rightarrow> bf_EventType \<Rightarrow> string \<Rightarrow> string + ActionType"

record Syncer =
  bwList :: "Filter option"
  binlogFilter :: "BinlogEvent option"

fun anySystemSchema :: "(string \<Rightarrow> bool) \<Rightarrow> Table list \<Rightarrow> bool" where
  "anySystemSchema isSystemSchema [] = False"
| "anySystemSchema isSystemSchema (table # tables) =
     (if isSystemSchema (Schema table) then True else anySystemSchema isSystemSchema tables)"

fun skipQuery_tables :: "BinlogEvent \<Rightarrow> Table list \<Rightarrow> string \<Rightarrow> bool \<times> error option" where
  "skipQuery_tables bfl [] sql = (False, None)"
| "skipQuery_tables bfl (table # tables) sql =
     (case bfl (Schema table) (Name table) NullEvent NullEvent sql of
        Inl err \<Rightarrow>
          (False, Some (Annotated (External err) (Skip_query_on sql (Schema table) (Name table))))
      | Inr action \<Rightarrow>
          if action = Ignore then (True, None) else skipQuery_tables bfl tables sql)"

text \<open>
  \<^verbatim>\<open>FindStringIndex(sql) != nil\<close> says that the text contains a match, which is what
  \<^verbatim>\<open>MatchString\<close> reports.
\<close>

definition skipQuery ::
  "Regexp \<Rightarrow> (string \<Rightarrow> bool) \<Rightarrow> Syncer \<Rightarrow> Table list \<Rightarrow> string \<Rightarrow> bool \<times> error option" where
  "skipQuery builtInSkipDDLPatterns isSystemSchema s tables sql =
     (if MatchString builtInSkipDDLPatterns sql then (True, None)
      else if anySystemSchema isSystemSchema tables then (True, None)
      else if length tables > 0 \<and> length (ApplyOn (bwList s) tables) = 0 then (True, None)
      else
        (case binlogFilter s of
           None \<Rightarrow> (False, None)
         | Some bfl \<Rightarrow>
             if length tables = 0 then
               (case bfl [] [] NullEvent NullEvent sql of
                  Inl err \<Rightarrow> (False, Some (Annotated (External err) (Skip_query sql)))
                | Inr action \<Rightarrow>
                    if action = Ignore then (True, None) else skipQuery_tables bfl tables sql)
             else skipQuery_tables bfl tables sql))"

definition skipDMLEvent ::
  "(string \<Rightarrow> bool) \<Rightarrow> Syncer \<Rightarrow> string \<Rightarrow> string \<Rightarrow> EventType \<Rightarrow> bool \<times> error option" where
  "skipDMLEvent isSystemSchema s schema0 table0 eventType =
     (if isSystemSchema schema0 then (True, None)
      else
        let schema = strings_ToLower schema0;
            table = strings_ToLower table0;
            tbs = ApplyOn (bwList s) [\<lparr>Schema = schema, Name = table\<rparr>]
        in
          if length tbs = 0 then (True, None)
          else
            (case binlogFilter s of
               None \<Rightarrow> (False, None)
             | Some bfl \<Rightarrow>
                 (case
                    (if eventType = WRITE_ROWS_EVENTv0 \<or> eventType = WRITE_ROWS_EVENTv1
                        \<or> eventType = WRITE_ROWS_EVENTv2 then Some InsertEvent
                     else if eventType = UPDATE_ROWS_EVENTv0 \<or> eventType = UPDATE_ROWS_EVENTv1
                        \<or> eventType = UPDATE_ROWS_EVENTv2 then Some UpdateEvent
                     else if eventType = DELETE_ROWS_EVENTv0 \<or> eventType = DELETE_ROWS_EVENTv1
                        \<or> eventType = DELETE_ROWS_EVENTv2 then Some DeleteEvent
                     else None)
                  of
                    None \<Rightarrow> (False, Some (Invalid_replication_event_type eventType))
                  | Some et \<Rightarrow>
                      (case bfl schema table et NullEvent [] of
                         Inl err \<Rightarrow>
                           (False,
                            Some (Annotated (External err) (Skip_row_event eventType schema table)))
                       | Inr action \<Rightarrow> (action = Ignore, None)))))"

section \<open>Package checker\<close>

text \<open>
  Embedding of \<^verbatim>\<open>checker/checker.go\<close>: the methods \<^verbatim>\<open>Process\<close>, \<^verbatim>\<open>Close\<close> and
  \<^verbatim>\<open>Status\<close> of the \<^verbatim>\<open>Checker\<close>, run one call after the other.  The messages
  \<^verbatim>\<open>ProcessResult\<close>, \<^verbatim>\<open>ProcessError\<close> and \<^verbatim>\<open>CheckStatus\<close> and the enumeration
  \<^verbatim>\<open>ErrorType\<close> are those of \<^verbatim>\<open>dm/proto/dmworker.proto\<close>.
\<close>

datatype ErrorType = UnknownError | ExecSQL | CheckFailed

record ProcessError =
  Type :: ErrorType
  Msg :: string

record ProcessResult =
  IsCanceled :: bool
  Errors :: "ProcessError list"
  Detail :: string

record CheckStatus =
  status_Passed :: bool
  status_Total :: "32 word"
  status_Successful :: "32 word"
  status_Failed :: "32 word"
  status_Warning :: "32 word"
  status_Detail :: string

text \<open>
  Modelled from the spec: \<^verbatim>\<open>unit.NewProcessError\<close> is a function of the repository
  that is not in the sources at hand; a check failure "surfaces as a \<^verbatim>\<open>CheckFailed\<close>
  process error", so the function builds the \<^verbatim>\<open>ProcessError\<close> of its two arguments.
\<close>

definition NewProcessError :: "ErrorType \<Rightarrow> string \<Rightarrow> ProcessError" where
  "NewProcessError errorType msg = \<lparr>Type = errorType, Msg = msg\<rparr>"

text \<open>
  The result of the external package \<^verbatim>\<open>check\<close>: of \<^verbatim>\<open>check.Results\<close> the code reads
  the summary, whose counters are 64-bit integers.  A checker of the check list is opaque
  (its name), and so are a sub-task configuration and a database handle.
\<close>

record ResultSummary =
  Passed :: bool
  Total :: "64 word"
  Successful :: "64 word"
  Failed :: "64 word"
  Warning :: "64 word"

record Results =
  Summary :: ResultSummary

type_synonym check_Checker = string
type_synonym SubTaskConfig = string
type_synonym DB = nat

record mysqlInstance =
  cfg :: SubTaskConfig
  sourceDB :: "DB option"
  targetDB :: "DB option"

text \<open>
  The field \<open>detail\<close> is \<^verbatim>\<open>c.result.detail\<close>, a pointer that is nil until \<^verbatim>\<open>Process\<close>
  stores a result.
\<close>

record Checker =
  closed :: bool
  instances :: "mysqlInstance list"
  checkList :: "check_Checker list"
  detail :: "Results option"

definition NewChecker :: "SubTaskConfig list \<Rightarrow> Checker" where
  "NewChecker cfgs =
     \<lparr>closed = False,
      instances = map (\<lambda>c. \<lparr>cfg = c, sourceDB = None, targetDB = None\<rparr>) cfgs,
      checkList = [],
      detail = None\<rparr>"

text \<open>
  \<^verbatim>\<open>Process\<close>.  What the surroundings do during the call are parameters: \<open>check_Do\<close> is
  \<^verbatim>\<open>check.Do\<close>, which returns a result that the code dereferences unchecked;
  \<open>cctx_done\<close> says whether the context derived with the timeout of one minute is done
  when the \<^verbatim>\<open>select\<close> looks at it; \<open>json_Marshal\<close> returns the bytes or an error.  The
  channel is the list of the values sent on it so far, and the send appends: a receiver
  is taken to be there.
\<close>

definition Process ::
  "(check_Checker list \<Rightarrow> Results) \<Rightarrow> bool \<Rightarrow> (Results \<Rightarrow> string + string) \<Rightarrow>
   Checker \<Rightarrow> ProcessResult list \<Rightarrow> Checker \<times> ProcessResult list" where
  "Process check_Do cctx_done json_Marshal c pr =
     (let result = check_Do (checkList c);
          errs = (if \<not> Passed (Summary result)
                  then [] @ [NewProcessError CheckFailed ''check was failed, please see detail'']
                  else []);
          isCanceled = (if cctx_done then True else False);
          rawResult = (case json_Marshal result of
                         Inr raw \<Rightarrow> raw
                       | Inl err \<Rightarrow> ''marshal error '' @ err);
          c' = c\<lparr>detail := Some result\<rparr>
      in (c', pr @ [\<lparr>IsCanceled = isCanceled, Errors = errs, Detail = rawResult\<rparr>]))"







text \<open>
  \<^verbatim>\<open>Status\<close> reads \<^verbatim>\<open>c.result.detail\<close> under the read lock and dereferences it
  without a nil check.  The conversions \<^verbatim>\<open>int32(...)\<close> keep the low 32 bits.  The errors
  it collects do not reach the returned status; when \<^verbatim>\<open>json.Marshal\<close> fails the detail is
  nil, the empty byte string.
\<close>

definition Status :: "(Results \<Rightarrow> string + string) \<Rightarrow> Checker \<Rightarrow> panic + CheckStatus" where
  "Status json_Marshal c =
     (case detail c of
        None \<Rightarrow> Inl Nil_dereference
      | Some res \<Rightarrow>
          Inr \<lparr>status_Passed = Passed (Summary res),
               status_Total = ucast (Total (Summary res)),
               status_Successful = ucast (Successful (Summary res)),
               status_Failed = ucast (Failed (Summary res)),
               status_Warning = ucast (Warning (Summary res)),
               status_Detail = (case json_Marshal res of Inr raw \<Rightarrow> raw | Inl err \<Rightarrow> [])\<rparr>)"

section \<open>Properties of the filter\<close>

lemma matchDB_iff: "matchDB f ps a \<longleftrightarrow> (\<exists>b \<in> set ps. matchString f b a)"
  by (induction ps) auto

lemma matchTable_iff:
  "matchTable f ps tb \<longleftrightarrow>
     (\<exists>p \<in> set ps. matchString f (Schema p) (Schema tb) \<and> matchString f (Name p) (Name tb))"
  by (induction ps) auto

lemma ApplyOn_loop_filter:
  "ApplyOn_loop f r acc stbs =
     acc @ filter (\<lambda>tb. filterOnSchemas f r tb \<and> filterOnTables f r tb) stbs"
  by (induction stbs arbitrary: acc) auto

lemma ApplyOn_Some:
  "rules f = Some r \<Longrightarrow>
   ApplyOn (Some f) ts = filter (\<lambda>tb. filterOnSchemas f r tb \<and> filterOnTables f r tb) ts"
  by (simp add: ApplyOn_def ApplyOn_loop_filter)

subsection \<open>The table gate\<close>

text \<open>
  Claim C1.  The table gate \<open>filterOnTables\<close>: a table with an empty name always passes.
  A table with a non-empty name is accepted when the do-list is non-empty and one of its
  (schema, name) pattern pairs matches the table; otherwise it is rejected when the
  ignore-list is non-empty and one of its pairs matches; otherwise it is accepted exactly
  when the do-list is empty.
\<close>

theorem filterOnTables_gate:
  "filterOnTables f r t =
     (if Name t = [] then True
      else if DoTables r \<noteq> [] \<and>
              (\<exists>p \<in> set (DoTables r).
                 matchString f (Schema p) (Schema t) \<and> matchString f (Name p) (Name t))
      then True
      else if IgnoreTables r \<noteq> [] \<and>
              (\<exists>p \<in> set (IgnoreTables r).
                 matchString f (Schema p) (Schema t) \<and> matchString f (Name p) (Name t))
      then False
      else DoTables r = [])"
  unfolding filterOnTables_def findMatchedDoTables_def findMatchedIgnoreTables_def
    matchTable_iff
  by (cases "Name t = []") auto

theorem filterOnTables_gate_witness:
  "filterOnTables \<lparr>patternMap = Map.empty, rules = None\<rparr>
     \<lparr>DoTables = [\<lparr>Schema = ''db'', Name = ''t1''\<rparr>], DoDBs = [],
      IgnoreTables = [], IgnoreDBs = []\<rparr>
     \<lparr>Schema = ''db'', Name = ''t1''\<rparr>
   \<and> \<not> filterOnTables \<lparr>patternMap = Map.empty, rules = None\<rparr>
     \<lparr>DoTables = [\<lparr>Schema = ''db'', Name = ''t1''\<rparr>], DoDBs = [],
      IgnoreTables = [], IgnoreDBs = []\<rparr>
     \<lparr>Schema = ''db'', Name = ''t2''\<rparr>
   \<and> filterOnTables \<lparr>patternMap = Map.empty, rules = None\<rparr>
     \<lparr>DoTables = [\<lparr>Schema = ''db'', Name = ''t1''\<rparr>], DoDBs = [],
      IgnoreTables = [], IgnoreDBs = []\<rparr>
     \<lparr>Schema = ''other'', Name = []\<rparr>"
  using
    filterOnTables_gate [of "\<lparr>patternMap = Map.empty, rules = None\<rparr>"
      "\<lparr>DoTables = [\<lparr>Schema = ''db'', Name = ''t1''\<rparr>], DoDBs = [],
        IgnoreTables = [], IgnoreDBs = []\<rparr>" "\<lparr>Schema = ''db'', Name = ''t1''\<rparr>"]
    filterOnTables_gate [of "\<lparr>patternMap = Map.empty, rules = None\<rparr>"
      "\<lparr>DoTables = [\<lparr>Schema = ''db'', Name = ''t1''\<rparr>], DoDBs = [],
        IgnoreTables = [], IgnoreDBs = []\<rparr>" "\<lparr>Schema = ''db'', Name = ''t2''\<rparr>"]
    filterOnTables_gate [of "\<lparr>patternMap = Map.empty, rules = None\<rparr>"
      "\<lparr>DoTables = [\<lparr>Schema = ''db'', Name = ''t1''\<rparr>], DoDBs = [],
        IgnoreTables = [], IgnoreDBs = []\<rparr>" "\<lparr>Schema = ''other'', Name = []\<rparr>"]
  by (simp add: matchString_def)

subsection \<open>The schema gate\<close>

text \<open>
  Claim C2.  The schema gate \<open>filterOnSchemas\<close>: with a non-empty \<open>DoDBs\<close> a table passes
  exactly when its schema matches one of the \<open>DoDBs\<close> patterns, and the result does not
  depend on \<open>IgnoreDBs\<close>; with an empty \<open>DoDBs\<close> a table is rejected exactly when
  \<open>IgnoreDBs\<close> is non-empty and one of its patterns matches the schema.  Hence a table
  whose schema matches no pattern of a non-empty \<open>DoDBs\<close> is not in the result of
  \<open>ApplyOn\<close>, whatever the table rules are.
\<close>

theorem filterOnSchemas_gate:
  "(DoDBs r \<noteq> [] \<longrightarrow>
      filterOnSchemas f r t = (\<exists>b \<in> set (DoDBs r). matchString f b (Schema t)))
   \<and> (DoDBs r \<noteq> [] \<longrightarrow>
      filterOnSchemas f (r\<lparr>IgnoreDBs := igs\<rparr>) t = filterOnSchemas f r t)
   \<and> (DoDBs r = [] \<longrightarrow>
      filterOnSchemas f r t =
        (\<not> (IgnoreDBs r \<noteq> [] \<and> (\<exists>b \<in> set (IgnoreDBs r). matchString f b (Schema t)))))
   \<and> (DoDBs r \<noteq> [] \<and> rules f = Some r \<and>
        (\<forall>b \<in> set (DoDBs r). \<not> matchString f b (Schema t)) \<longrightarrow>
      t \<notin> set (ApplyOn (Some f) ts))"
proof -
  have gate: "filterOnSchemas f r' t =
      (if DoDBs r' \<noteq> [] then (\<exists>b \<in> set (DoDBs r'). matchString f b (Schema t))
       else \<not> (IgnoreDBs r' \<noteq> [] \<and> (\<exists>b \<in> set (IgnoreDBs r'). matchString f b (Schema t))))"
    for r'
    by (simp add: filterOnSchemas_def findMatchedDoDBs_def findMatchedIgnoreDBs_def
        matchDB_iff)
  have "t \<notin> set (ApplyOn (Some f) ts)"
    if "DoDBs r \<noteq> []" "rules f = Some r" "\<forall>b \<in> set (DoDBs r). \<not> matchString f b (Schema t)"
  proof -
    from that have "\<not> filterOnSchemas f r t" by (simp add: gate)
    with that(2) show ?thesis by (simp add: ApplyOn_Some)
  qed
  then show ?thesis by (simp add: gate)
qed

theorem filterOnSchemas_gate_witness:
  "\<lparr>Schema = ''db2'', Name = ''t1''\<rparr> \<notin>
     set (ApplyOn
       (Some \<lparr>patternMap = Map.empty,
              rules = Some \<lparr>DoTables = [\<lparr>Schema = ''db2'', Name = ''t1''\<rparr>],
                DoDBs = [''db1''], IgnoreTables = [], IgnoreDBs = []\<rparr>\<rparr>)
       [\<lparr>Schema = ''db2'', Name = ''t1''\<rparr>])"
  using filterOnSchemas_gate
    [of "\<lparr>DoTables = [\<lparr>Schema = ''db2'', Name = ''t1''\<rparr>],
          DoDBs = [''db1''], IgnoreTables = [], IgnoreDBs = []\<rparr>"
        "\<lparr>patternMap = Map.empty,
          rules = Some \<lparr>DoTables = [\<lparr>Schema = ''db2'', Name = ''t1''\<rparr>],
            DoDBs = [''db1''], IgnoreTables = [], IgnoreDBs = []\<rparr>\<rparr>"
        "\<lparr>Schema = ''db2'', Name = ''t1''\<rparr>" "[]"
        "[\<lparr>Schema = ''db2'', Name = ''t1''\<rparr>]"]
  by (simp add: matchString_def)

subsection \<open>Idempotence\<close>

text \<open>
  Claim C7.  \<open>ApplyOn\<close> is idempotent for every filter, the nil filter and the filter with
  nil rules included; for a nil filter or for nil rules it returns its input unchanged.
\<close>

theorem ApplyOn_idempotent:
  "ApplyOn fo (ApplyOn fo ts) = ApplyOn fo ts
   \<and> ApplyOn None ts = ts
   \<and> ApplyOn (Some (f\<lparr>rules := None\<rparr>)) ts = ts"
  by (simp add: ApplyOn_def ApplyOn_loop_filter split: option.splits)

section \<open>Properties of the construction\<close>

lemma addOneRegex_cases:
  "addOneRegex mc f p =
     (if patternMap f p \<noteq> None then Inr f
      else if p = [] then Inl Index_out_of_range
      else (case mc (pattern_source p) of
              None \<Rightarrow> Inl (Regexp_compile (pattern_source p))
            | Some re \<Rightarrow> Inr (f\<lparr>patternMap := (patternMap f)(p \<mapsto> re)\<rparr>)))"
  by (auto simp: addOneRegex_def pattern_source_def split: option.splits list.splits)

lemma addAll_append:
  "addAll mc f (ps @ qs) =
     (case addAll mc f ps of Inl e \<Rightarrow> Inl e | Inr f1 \<Rightarrow> addAll mc f1 qs)"
  by (induction ps arbitrary: f) (auto split: sum.splits)

lemma addDBs_addAll: "addDBs mc f dbs = addAll mc f dbs"
  by (induction dbs arbitrary: f) (auto split: sum.splits)

lemma addTables_addAll: "addTables mc f tbs = addAll mc f (table_patterns tbs)"
  by (induction tbs arbitrary: f) (auto simp: table_patterns_def split: sum.splits)

lemma genRegexMap_addAll:
  "rules f = Some r \<Longrightarrow> genRegexMap mc f = addAll mc f (patterns_of r)"
  by (simp add: genRegexMap_def patterns_of_def addAll_append addDBs_addAll addTables_addAll
      split: sum.splits)

lemma addAll_total:
  assumes "\<forall>p \<in> set ps. p \<noteq> [] \<and> mc (pattern_source p) \<noteq> None" and "cache_ok mc f"
  shows "\<exists>f'. addAll mc f ps = Inr f' \<and> rules f' = rules f \<and> cache_ok mc f'
           \<and> dom (patternMap f') = dom (patternMap f) \<union> set ps"
  using assms
proof (induction ps arbitrary: f)
  case Nil
  then show ?case by simp
next
  case (Cons p ps)
  show ?case
  proof (cases "patternMap f p")
    case None
    from Cons.prems(1) obtain re where re: "mc (pattern_source p) = Some re" and ne: "p \<noteq> []"
      by auto
    let ?f1 = "f\<lparr>patternMap := (patternMap f)(p \<mapsto> re)\<rparr>"
    have step: "addOneRegex mc f p = Inr ?f1"
      using None re ne by (simp add: addOneRegex_cases)
    have ok: "cache_ok mc ?f1"
      using Cons.prems(2) re by (auto simp: cache_ok_def)
    have rest: "\<forall>q \<in> set ps. q \<noteq> [] \<and> mc (pattern_source q) \<noteq> None"
      using Cons.prems(1) by simp
    from Cons.IH [OF rest ok]
    obtain f' where f': "addAll mc ?f1 ps = Inr f'" "rules f' = rules ?f1" "cache_ok mc f'"
      "dom (patternMap f') = dom (patternMap ?f1) \<union> set ps"
      by blast
    have "addAll mc f (p # ps) = Inr f'" using step f'(1) by simp
    moreover have "rules f' = rules f" using f'(2) by simp
    moreover have "dom (patternMap f') = dom (patternMap f) \<union> set (p # ps)"
      using f'(4) by auto
    ultimately show ?thesis using f'(3) by blast
  next
    case (Some re)
    have step: "addOneRegex mc f p = Inr f"
      using Some by (simp add: addOneRegex_cases)
    have rest: "\<forall>q \<in> set ps. q \<noteq> [] \<and> mc (pattern_source q) \<noteq> None"
      using Cons.prems(1) by simp
    from Cons.IH [OF rest Cons.prems(2)]
    obtain f' where f': "addAll mc f ps = Inr f'" "rules f' = rules f" "cache_ok mc f'"
      "dom (patternMap f') = dom (patternMap f) \<union> set ps"
      by blast
    have "addAll mc f (p # ps) = Inr f'" using step f'(1) by simp
    moreover have "dom (patternMap f') = dom (patternMap f) \<union> set (p # ps)"
      using f'(4) Some by auto
    ultimately show ?thesis using f'(2,3) by blast
  qed
qed

lemma addAll_empty_pattern:
  assumes "[] \<in> set ps" and "patternMap f [] = None"
  shows "\<exists>e. addAll mc f ps = Inl e"
  using assms
proof (induction ps arbitrary: f)
  case Nil
  then show ?case by simp
next
  case (Cons p ps)
  show ?case
  proof (cases "addOneRegex mc f p")
    case (Inl e)
    then show ?thesis by simp
  next
    case (Inr f1)
    then have "p \<noteq> []" and "patternMap f1 [] = None"
      using Cons.prems(2)
      by (auto simp: addOneRegex_cases split: if_splits option.splits)
    with Cons.IH [of f1] Cons.prems(1) Inr show ?thesis by auto
  qed
qed

lemma addAll_empty_pattern_index:
  assumes "[] \<in> set ps" and "patternMap f [] = None"
    and "\<forall>p \<in> set ps. p \<noteq> [] \<longrightarrow> mc (pattern_source p) \<noteq> None"
  shows "addAll mc f ps = Inl Index_out_of_range"
  using assms
proof (induction ps arbitrary: f)
  case Nil
  then show ?case by simp
next
  case (Cons p ps)
  show ?case
  proof (cases "p = []")
    case True
    then show ?thesis using Cons.prems(2) by (simp add: addOneRegex_cases)
  next
    case False
    with Cons.prems have tl: "[] \<in> set ps" and comp: "mc (pattern_source p) \<noteq> None"
      by auto
    then obtain f1 where f1: "addOneRegex mc f p = Inr f1" and "patternMap f1 [] = None"
      using False Cons.prems(2)
      by (cases "patternMap f p") (auto simp: addOneRegex_cases)
    with Cons.IH [of f1] tl Cons.prems(3) show ?thesis by simp
  qed
qed

lemma New_addAll:
  "New mc (Some r) = addAll mc \<lparr>patternMap = Map.empty, rules = Some r\<rparr> (patterns_of r)"
  by (simp add: New_def genRegexMap_addAll)

lemma New_total_lemma:
  assumes "\<forall>p \<in> set (patterns_of r). p \<noteq> [] \<and> mc (pattern_source p) \<noteq> None"
  shows "\<exists>f. New mc (Some r) = Inr f \<and> rules f = Some r \<and> cache_ok mc f
           \<and> dom (patternMap f) = set (patterns_of r)"
proof -
  have "cache_ok mc \<lparr>patternMap = Map.empty, rules = Some r\<rparr>"
    by (simp add: cache_ok_def)
  from addAll_total [OF assms this] show ?thesis
    by (simp add: New_addAll)
qed

lemma syntax_Parse_unclosed: "syntax_Parse ''(?i)^($'' = None"
  by code_simp

lemma syntax_Parse_Foo:
  "syntax_Parse ''(?i)^Foo$'' =
     Some (Concat BeginText (Concat (Literal True CHR ''F'')
       (Concat (Literal True CHR ''o'') (Concat (Literal True CHR ''o'') EndText))))"
  by code_simp

lemma syntax_Parse_tmp:
  "syntax_Parse ''(?i)^tmp_'' =
     Some (Concat BeginText (Concat (Literal True CHR ''t'') (Concat (Literal True CHR ''m'')
       (Concat (Literal True CHR ''p'') (Literal True CHR ''_'')))))"
  by code_simp

text \<open>
  Claim C10, amended.  When every pattern string of the rule set is non-empty and its
  regular expression compiles, \<open>New\<close> returns a filter over the same rules whose cache has
  exactly the pattern strings as keys, each with the compiled form of its regular
  expression (\<^verbatim>\<open>(?i)^pattern$\<close>, or \<^verbatim>\<open>(?i)rest\<close> for \<^verbatim>\<open>~rest\<close>), so \<open>matchString\<close> uses the
  compiled matcher for every rule pattern.  When some pattern string is empty, \<open>New\<close>
  panics, and by the index \<^verbatim>\<open>originStr[0]\<close> if the other patterns compile.  For nil
  rules \<open>New\<close> returns the filter with an empty cache.
\<close>

theorem New_total_iff_patterns_compile:
  "((\<forall>p \<in> set (patterns_of r). p \<noteq> [] \<and> mc (pattern_source p) \<noteq> None) \<longrightarrow>
      (\<exists>f. New mc (Some r) = Inr f \<and> rules f = Some r
         \<and> dom (patternMap f) = set (patterns_of r)
         \<and> (\<forall>p \<in> set (patterns_of r).
               \<exists>re. patternMap f p = Some re \<and> mc (pattern_source p) = Some re
                 \<and> (\<forall>t. matchString f p t = MatchString re t))))
   \<and> ([] \<in> set (patterns_of r) \<longrightarrow> (\<exists>e. New mc (Some r) = Inl e))
   \<and> ([] \<in> set (patterns_of r) \<and>
        (\<forall>p \<in> set (patterns_of r). p \<noteq> [] \<longrightarrow> mc (pattern_source p) \<noteq> None) \<longrightarrow>
      New mc (Some r) = Inl Index_out_of_range)
   \<and> New mc None = Inr \<lparr>patternMap = Map.empty, rules = None\<rparr>"
proof (intro conjI impI)
  assume a: "\<forall>p \<in> set (patterns_of r). p \<noteq> [] \<and> mc (pattern_source p) \<noteq> None"
  from New_total_lemma [OF a] obtain f where f: "New mc (Some r) = Inr f" "rules f = Some r"
    "cache_ok mc f" "dom (patternMap f) = set (patterns_of r)"
    by blast
  have "\<exists>re. patternMap f p = Some re \<and> mc (pattern_source p) = Some re
          \<and> (\<forall>t. matchString f p t = MatchString re t)"
    if "p \<in> set (patterns_of r)" for p
  proof -
    from that f(4) obtain re where re: "patternMap f p = Some re" by auto
    with f(3) have "mc (pattern_source p) = Some re" by (simp add: cache_ok_def)
    with re show ?thesis by (simp add: matchString_def)
  qed
  with f show "\<exists>f. New mc (Some r) = Inr f \<and> rules f = Some r
         \<and> dom (patternMap f) = set (patterns_of r)
         \<and> (\<forall>p \<in> set (patterns_of r).
               \<exists>re. patternMap f p = Some re \<and> mc (pattern_source p) = Some re
                 \<and> (\<forall>t. matchString f p t = MatchString re t))"
    by blast
next
  assume "[] \<in> set (patterns_of r)"
  then show "\<exists>e. New mc (Some r) = Inl e"
    by (simp add: New_addAll addAll_empty_pattern)
next
  assume "[] \<in> set (patterns_of r) \<and>
    (\<forall>p \<in> set (patterns_of r). p \<noteq> [] \<longrightarrow> mc (pattern_source p) \<noteq> None)"
  then show "New mc (Some r) = Inl Index_out_of_range"
    by (simp add: New_addAll addAll_empty_pattern_index)
next
  show "New mc None = Inr \<lparr>patternMap = Map.empty, rules = None\<rparr>"
    by (simp add: New_def genRegexMap_def)
qed

theorem New_total_iff_patterns_compile_witness:
  "(\<exists>f. New regexp_MustCompile
          (Some \<lparr>DoTables = [], DoDBs = [''Foo'', ''~^tmp_''], IgnoreTables = [],
                 IgnoreDBs = []\<rparr>) = Inr f
        \<and> dom (patternMap f) = {''Foo'', ''~^tmp_''})
   \<and> New regexp_MustCompile
        (Some \<lparr>DoTables = [\<lparr>Schema = ''db'', Name = []\<rparr>], DoDBs = [], IgnoreTables = [],
               IgnoreDBs = []\<rparr>) = Inl Index_out_of_range"
proof -
  let ?r = "\<lparr>DoTables = [], DoDBs = [''Foo'', ''~^tmp_''], IgnoreTables = [],
    IgnoreDBs = []\<rparr>"
  let ?e = "\<lparr>DoTables = [\<lparr>Schema = ''db'', Name = []\<rparr>], DoDBs = [], IgnoreTables = [],
    IgnoreDBs = []\<rparr>"
  have db: "syntax_Parse ''(?i)^db$'' \<noteq> None" by code_simp
  have h1: "\<forall>p \<in> set (patterns_of ?r). p \<noteq> [] \<and> regexp_MustCompile (pattern_source p) \<noteq> None"
    by (simp add: patterns_of_def table_patterns_def pattern_source_def regexp_MustCompile_def
        syntax_Parse_Foo syntax_Parse_tmp)
  have h2: "[] \<in> set (patterns_of ?e) \<and>
      (\<forall>p \<in> set (patterns_of ?e). p \<noteq> [] \<longrightarrow> regexp_MustCompile (pattern_source p) \<noteq> None)"
    using db
    by (auto simp: patterns_of_def table_patterns_def pattern_source_def regexp_MustCompile_def
        split: option.splits)
  have s: "set (patterns_of ?r) = {''Foo'', ''~^tmp_''}"
    by (simp add: patterns_of_def table_patterns_def)
  from h1 New_total_iff_patterns_compile [of ?r regexp_MustCompile]
  have "\<exists>f. New regexp_MustCompile (Some ?r) = Inr f
          \<and> dom (patternMap f) = set (patterns_of ?r)"
    by blast
  moreover from h2 New_total_iff_patterns_compile [of ?e regexp_MustCompile]
  have "New regexp_MustCompile (Some ?e) = Inl Index_out_of_range"
    by blast
  ultimately show ?thesis
    unfolding s by blast
qed

text \<open>
  Claim C10 as stated fails: a rule set whose only pattern string is the non-empty string
  of one opening parenthesis makes \<open>New\<close> panic, in \<^verbatim>\<open>regexp.MustCompile\<close>.
\<close>

theorem New_panics_on_nonempty_pattern:
  "patterns_of \<lparr>DoTables = [], DoDBs = [''(''], IgnoreTables = [], IgnoreDBs = []\<rparr> = [''('']
   \<and> New regexp_MustCompile
        (Some \<lparr>DoTables = [], DoDBs = [''(''], IgnoreTables = [], IgnoreDBs = []\<rparr>)
      = Inl (Regexp_compile ''(?i)^($'')"
  by (simp add: patterns_of_def table_patterns_def New_addAll addOneRegex_cases
      pattern_source_def regexp_MustCompile_def syntax_Parse_unclosed)

section \<open>Properties of the event filter\<close>

lemma builtInSkipDDLPatterns_examples:
  "(case syntax_Parse (''(?i)'' @ strings_Join builtInSkipDDLs ''|'') of
      None \<Rightarrow> False
    | Some r \<Rightarrow>
        search r True ''SAVEPOINT sp1'' \<and> search r True ''FLUSH LOGS''
        \<and> search r True ''OPTIMIZE TABLE t'' \<and> search r True ''CREATE TRIGGER tg ...''
        \<and> search r True ''GRANT ALL ON *.*'')"
  by code_simp

text \<open>
  Claim C3.  When the SQL text contains a match of the compiled built-in patterns (each
  of which is anchored at the beginning of the text), \<open>skipQuery\<close> returns \<open>(true, nil)\<close>,
  whatever the system schemas, the filter rules, the binlog filter and the tables are.
  The patterns compile, and the five statements of the claim are skipped.
\<close>

theorem skipQuery_builtIn:
  "(MatchString pat sql \<longrightarrow> skipQuery pat isSystemSchema s tables sql = (True, None))
   \<and> (\<exists>pat0. init = Inr pat0
         \<and> skipQuery pat0 isSystemSchema s tables ''SAVEPOINT sp1'' = (True, None)
         \<and> skipQuery pat0 isSystemSchema s tables ''FLUSH LOGS'' = (True, None)
         \<and> skipQuery pat0 isSystemSchema s tables ''OPTIMIZE TABLE t'' = (True, None)
         \<and> skipQuery pat0 isSystemSchema s tables ''CREATE TRIGGER tg ...'' = (True, None)
         \<and> skipQuery pat0 isSystemSchema s tables ''GRANT ALL ON *.*'' = (True, None))"
proof
  show "MatchString pat sql \<longrightarrow> skipQuery pat isSystemSchema s tables sql = (True, None)"
    by (simp add: skipQuery_def)
next
  let ?src = "''(?i)'' @ strings_Join builtInSkipDDLs ''|''"
  have "\<exists>r. syntax_Parse ?src = Some r
      \<and> search r True ''SAVEPOINT sp1'' \<and> search r True ''FLUSH LOGS''
      \<and> search r True ''OPTIMIZE TABLE t'' \<and> search r True ''CREATE TRIGGER tg ...''
      \<and> search r True ''GRANT ALL ON *.*''"
  proof (cases "syntax_Parse ?src")
    case None
    with builtInSkipDDLPatterns_examples show ?thesis
      by (simp only: option.case)
  next
    case (Some r)
    with builtInSkipDDLPatterns_examples show ?thesis
      by (simp only: option.case option.inject simp_thms ex_simps)
  qed
  then obtain r where
    r: "syntax_Parse (''(?i)'' @ strings_Join builtInSkipDDLs ''|'') = Some r" and
    m: "search r True ''SAVEPOINT sp1''" "search r True ''FLUSH LOGS''"
      "search r True ''OPTIMIZE TABLE t''" "search r True ''CREATE TRIGGER tg ...''"
      "search r True ''GRANT ALL ON *.*''"
    by blast
  let ?p = "\<lparr>MatchString = search r True\<rparr>"
  have i: "init = Inr ?p"
    using r by (simp add: init_def regexp_MustCompile_def)
  have g: "skipQuery ?p isSystemSchema s tables q = (True, None)" if "search r True q" for q
    using that by (simp only: skipQuery_def Regexp.select_convs if_True)
  from i g [OF m(1)] g [OF m(2)] g [OF m(3)] g [OF m(4)] g [OF m(5)]
  show "\<exists>pat0. init = Inr pat0
         \<and> skipQuery pat0 isSystemSchema s tables ''SAVEPOINT sp1'' = (True, None)
         \<and> skipQuery pat0 isSystemSchema s tables ''FLUSH LOGS'' = (True, None)
         \<and> skipQuery pat0 isSystemSchema s tables ''OPTIMIZE TABLE t'' = (True, None)
         \<and> skipQuery pat0 isSystemSchema s tables ''CREATE TRIGGER tg ...'' = (True, None)
         \<and> skipQuery pat0 isSystemSchema s tables ''GRANT ALL ON *.*'' = (True, None)"
    by blast
qed

theorem skipQuery_builtIn_witness:
  "skipQuery \<lparr>MatchString = search (Concat BeginText (Literal True CHR ''#'')) True\<rparr>
     (\<lambda>schema. False) \<lparr>bwList = None, binlogFilter = None\<rparr>
     [\<lparr>Schema = ''db'', Name = ''t''\<rparr>] ''# Dumm'' = (True, None)"
proof -
  have "search (Concat BeginText (Literal True CHR ''#'')) True ''# Dumm''"
    by code_simp
  then have "MatchString \<lparr>MatchString = search (Concat BeginText (Literal True CHR ''#'')) True\<rparr>
      ''# Dumm''"
    by (simp only: Regexp.select_convs)
  with skipQuery_builtIn
    [of "\<lparr>MatchString = search (Concat BeginText (Literal True CHR ''#'')) True\<rparr>"
        "''# Dumm''" "\<lambda>schema. False" "\<lparr>bwList = None, binlogFilter = None\<rparr>"
        "[\<lparr>Schema = ''db'', Name = ''t''\<rparr>]"]
  show ?thesis by blast
qed

text \<open>
  Claim C4, amended.  For a schema that is not a system schema and a table that survives
  the table filter: without a binlog filter \<open>skipDMLEvent\<close> returns \<open>(false, nil)\<close> for
  every event type; with a binlog filter it asks the filter with Insert for the three
  write-rows types, Update for the three update-rows types and Delete for the three
  delete-rows types (the answer Ignore is a skip, an error of the filter is returned
  annotated, with no skip), and for every other event type it returns no skip and the
  error "invalid replication event type".
\<close>

theorem skipDMLEvent_event_types:
  "\<not> isSystemSchema schema \<and>
   ApplyOn (bwList s)
     [\<lparr>Schema = strings_ToLower schema, Name = strings_ToLower table\<rparr>] \<noteq> [] \<longrightarrow>
   (binlogFilter s = None \<longrightarrow>
      skipDMLEvent isSystemSchema s schema table eventType = (False, None))
   \<and> (\<forall>bfl. binlogFilter s = Some bfl \<longrightarrow>
        (\<forall>et. (eventType \<in> {WRITE_ROWS_EVENTv0, WRITE_ROWS_EVENTv1, WRITE_ROWS_EVENTv2}
                  \<and> et = InsertEvent
               \<or> eventType \<in> {UPDATE_ROWS_EVENTv0, UPDATE_ROWS_EVENTv1, UPDATE_ROWS_EVENTv2}
                  \<and> et = UpdateEvent
               \<or> eventType \<in> {DELETE_ROWS_EVENTv0, DELETE_ROWS_EVENTv1, DELETE_ROWS_EVENTv2}
                  \<and> et = DeleteEvent) \<longrightarrow>
           skipDMLEvent isSystemSchema s schema table eventType =
             (case bfl (strings_ToLower schema) (strings_ToLower table) et NullEvent [] of
                Inl err \<Rightarrow>
                  (False,
                   Some (Annotated (External err)
                     (Skip_row_event eventType (strings_ToLower schema)
                        (strings_ToLower table))))
              | Inr action \<Rightarrow> (action = Ignore, None)))
        \<and> (eventType \<notin> {WRITE_ROWS_EVENTv0, WRITE_ROWS_EVENTv1, WRITE_ROWS_EVENTv2,
                          UPDATE_ROWS_EVENTv0, UPDATE_ROWS_EVENTv1, UPDATE_ROWS_EVENTv2,
                          DELETE_ROWS_EVENTv0, DELETE_ROWS_EVENTv1, DELETE_ROWS_EVENTv2} \<longrightarrow>
           skipDMLEvent isSystemSchema s schema table eventType =
             (False, Some (Invalid_replication_event_type eventType))))"
proof (intro impI conjI allI)
  assume a: "\<not> isSystemSchema schema \<and>
   ApplyOn (bwList s)
     [\<lparr>Schema = strings_ToLower schema, Name = strings_ToLower table\<rparr>] \<noteq> []"
  show "skipDMLEvent isSystemSchema s schema table eventType = (False, None)"
    if "binlogFilter s = None"
    using a that by (simp add: skipDMLEvent_def Let_def)
  show "skipDMLEvent isSystemSchema s schema table eventType =
      (False, Some (Invalid_replication_event_type eventType))"
    if "binlogFilter s = Some bfl"
      "eventType \<notin> {WRITE_ROWS_EVENTv0, WRITE_ROWS_EVENTv1, WRITE_ROWS_EVENTv2,
                          UPDATE_ROWS_EVENTv0, UPDATE_ROWS_EVENTv1, UPDATE_ROWS_EVENTv2,
                          DELETE_ROWS_EVENTv0, DELETE_ROWS_EVENTv1, DELETE_ROWS_EVENTv2}"
    for bfl
    using a that by (simp add: skipDMLEvent_def Let_def)
  show "skipDMLEvent isSystemSchema s schema table eventType =
      (case bfl (strings_ToLower schema) (strings_ToLower table) et NullEvent [] of
         Inl err \<Rightarrow>
           (False,
            Some (Annotated (External err)
              (Skip_row_event eventType (strings_ToLower schema) (strings_ToLower table))))
       | Inr action \<Rightarrow> (action = Ignore, None))"
    if "binlogFilter s = Some bfl"
      "eventType \<in> {WRITE_ROWS_EVENTv0, WRITE_ROWS_EVENTv1, WRITE_ROWS_EVENTv2}
                  \<and> et = InsertEvent
               \<or> eventType \<in> {UPDATE_ROWS_EVENTv0, UPDATE_ROWS_EVENTv1, UPDATE_ROWS_EVENTv2}
                  \<and> et = UpdateEvent
               \<or> eventType \<in> {DELETE_ROWS_EVENTv0, DELETE_ROWS_EVENTv1, DELETE_ROWS_EVENTv2}
                  \<and> et = DeleteEvent"
    for bfl et
  proof -
    have distinct: "WRITE_ROWS_EVENTv0 \<noteq> UPDATE_ROWS_EVENTv0"
      "WRITE_ROWS_EVENTv0 \<noteq> UPDATE_ROWS_EVENTv1" "WRITE_ROWS_EVENTv0 \<noteq> UPDATE_ROWS_EVENTv2"
      "WRITE_ROWS_EVENTv1 \<noteq> UPDATE_ROWS_EVENTv0"
      "WRITE_ROWS_EVENTv1 \<noteq> UPDATE_ROWS_EVENTv1" "WRITE_ROWS_EVENTv1 \<noteq> UPDATE_ROWS_EVENTv2"
      "WRITE_ROWS_EVENTv2 \<noteq> UPDATE_ROWS_EVENTv0"
      "WRITE_ROWS_EVENTv2 \<noteq> UPDATE_ROWS_EVENTv1" "WRITE_ROWS_EVENTv2 \<noteq> UPDATE_ROWS_EVENTv2"
      "WRITE_ROWS_EVENTv0 \<noteq> DELETE_ROWS_EVENTv0"
      "WRITE_ROWS_EVENTv0 \<noteq> DELETE_ROWS_EVENTv1" "WRITE_ROWS_EVENTv0 \<noteq> DELETE_ROWS_EVENTv2"
      "WRITE_ROWS_EVENTv1 \<noteq> DELETE_ROWS_EVENTv0"
      "WRITE_ROWS_EVENTv1 \<noteq> DELETE_ROWS_EVENTv1" "WRITE_ROWS_EVENTv1 \<noteq> DELETE_ROWS_EVENTv2"
      "WRITE_ROWS_EVENTv2 \<noteq> DELETE_ROWS_EVENTv0"
      "WRITE_ROWS_EVENTv2 \<noteq> DELETE_ROWS_EVENTv1" "WRITE_ROWS_EVENTv2 \<noteq> DELETE_ROWS_EVENTv2"
      "UPDATE_ROWS_EVENTv0 \<noteq> DELETE_ROWS_EVENTv0"
      "UPDATE_ROWS_EVENTv0 \<noteq> DELETE_ROWS_EVENTv1" "UPDATE_ROWS_EVENTv0 \<noteq> DELETE_ROWS_EVENTv2"
      "UPDATE_ROWS_EVENTv1 \<noteq> DELETE_ROWS_EVENTv0"
      "UPDATE_ROWS_EVENTv1 \<noteq> DELETE_ROWS_EVENTv1" "UPDATE_ROWS_EVENTv1 \<noteq> DELETE_ROWS_EVENTv2"
      "UPDATE_ROWS_EVENTv2 \<noteq> DELETE_ROWS_EVENTv0"
      "UPDATE_ROWS_EVENTv2 \<noteq> DELETE_ROWS_EVENTv1" "UPDATE_ROWS_EVENTv2 \<noteq> DELETE_ROWS_EVENTv2"
      by (simp_all add: WRITE_ROWS_EVENTv0_def WRITE_ROWS_EVENTv1_def WRITE_ROWS_EVENTv2_def
          UPDATE_ROWS_EVENTv0_def UPDATE_ROWS_EVENTv1_def UPDATE_ROWS_EVENTv2_def
          DELETE_ROWS_EVENTv0_def DELETE_ROWS_EVENTv1_def DELETE_ROWS_EVENTv2_def)
    from that(2) show ?thesis
      using a that(1) distinct by (auto simp: skipDMLEvent_def Let_def)
  qed
qed

theorem skipDMLEvent_event_types_witness:
  "skipDMLEvent (\<lambda>schema. False)
     \<lparr>bwList = None,
      binlogFilter = Some (\<lambda>schema table dml ddl sql.
        Inr (if dml = InsertEvent then Ignore else Do))\<rparr>
     ''DB'' ''T'' WRITE_ROWS_EVENTv1 = (True, None)
   \<and> skipDMLEvent (\<lambda>schema. False)
     \<lparr>bwList = None,
      binlogFilter = Some (\<lambda>schema table dml ddl sql.
        Inr (if dml = InsertEvent then Ignore else Do))\<rparr>
     ''DB'' ''T'' 2 = (False, Some (Invalid_replication_event_type 2))"
proof -
  let ?bfl = "\<lambda>(schema::string) (table::string) dml (ddl::bf_EventType) (sql::string).
    (Inr (if dml = InsertEvent then Ignore else Do) :: string + ActionType)"
  let ?s = "\<lparr>bwList = None, binlogFilter = Some ?bfl\<rparr>"
  have pre: "\<not> (\<lambda>schema::string. False) ''DB'' \<and>
      ApplyOn (bwList ?s)
        [\<lparr>Schema = strings_ToLower ''DB'', Name = strings_ToLower ''T''\<rparr>] \<noteq> []"
    by (simp add: ApplyOn_def)
  have other: "(2::EventType) \<notin>
      {WRITE_ROWS_EVENTv0, WRITE_ROWS_EVENTv1, WRITE_ROWS_EVENTv2,
       UPDATE_ROWS_EVENTv0, UPDATE_ROWS_EVENTv1, UPDATE_ROWS_EVENTv2,
       DELETE_ROWS_EVENTv0, DELETE_ROWS_EVENTv1, DELETE_ROWS_EVENTv2}"
    by (simp add: WRITE_ROWS_EVENTv0_def WRITE_ROWS_EVENTv1_def WRITE_ROWS_EVENTv2_def
        UPDATE_ROWS_EVENTv0_def UPDATE_ROWS_EVENTv1_def UPDATE_ROWS_EVENTv2_def
        DELETE_ROWS_EVENTv0_def DELETE_ROWS_EVENTv1_def DELETE_ROWS_EVENTv2_def)
  have bf: "binlogFilter ?s = Some ?bfl" by simp
  from skipDMLEvent_event_types
    [of "\<lambda>schema. False" "''DB''" ?s "''T''" WRITE_ROWS_EVENTv1] pre bf
  have "skipDMLEvent (\<lambda>schema. False) ?s ''DB'' ''T'' WRITE_ROWS_EVENTv1 =
      (case ?bfl (strings_ToLower ''DB'') (strings_ToLower ''T'') InsertEvent NullEvent [] of
         Inl err \<Rightarrow>
           (False,
            Some (Annotated (External err)
              (Skip_row_event WRITE_ROWS_EVENTv1 (strings_ToLower ''DB'')
                 (strings_ToLower ''T''))))
       | Inr action \<Rightarrow> (action = Ignore, None))"
    by blast
  then have one: "skipDMLEvent (\<lambda>schema. False) ?s ''DB'' ''T'' WRITE_ROWS_EVENTv1 = (True, None)"
    by simp
  from skipDMLEvent_event_types [of "\<lambda>schema. False" "''DB''" ?s "''T''" 2] pre bf other
  have "skipDMLEvent (\<lambda>schema. False) ?s ''DB'' ''T'' 2 =
      (False, Some (Invalid_replication_event_type 2))"
    by blast
  with one show ?thesis by blast
qed

text \<open>
  Claim C4 as stated fails: without a binlog filter an event type that is none of the
  nine row events passes, with no error.
\<close>

theorem skipDMLEvent_unknown_type_passes:
  "(2::EventType) \<notin>
      {WRITE_ROWS_EVENTv0, WRITE_ROWS_EVENTv1, WRITE_ROWS_EVENTv2,
       UPDATE_ROWS_EVENTv0, UPDATE_ROWS_EVENTv1, UPDATE_ROWS_EVENTv2,
       DELETE_ROWS_EVENTv0, DELETE_ROWS_EVENTv1, DELETE_ROWS_EVENTv2}
   \<and> ApplyOn None [\<lparr>Schema = strings_ToLower ''db'', Name = strings_ToLower ''t''\<rparr>] \<noteq> []
   \<and> skipDMLEvent (\<lambda>schema. False) \<lparr>bwList = None, binlogFilter = None\<rparr> ''db'' ''t'' 2 =
       (False, None)"
  by (simp add: skipDMLEvent_def Let_def ApplyOn_def
      WRITE_ROWS_EVENTv0_def WRITE_ROWS_EVENTv1_def WRITE_ROWS_EVENTv2_def
      UPDATE_ROWS_EVENTv0_def UPDATE_ROWS_EVENTv1_def UPDATE_ROWS_EVENTv2_def
      DELETE_ROWS_EVENTv0_def DELETE_ROWS_EVENTv1_def DELETE_ROWS_EVENTv2_def)

section \<open>Properties of the checker\<close>

text \<open>
  Claim C6.  A call of \<open>Process\<close> sends exactly one \<open>ProcessResult\<close> on the channel.  Its
  errors are the single error of type \<open>CheckFailed\<close> when the summary of the checks is
  not passed and no error when it is passed, and it is cancelled exactly when the
  derived context was done at the check after the run.
\<close>

theorem Process_one_result:
  "snd (Process check_Do cctx_done json_Marshal c pr) =
     pr @ [last (snd (Process check_Do cctx_done json_Marshal c pr))]
   \<and> length (snd (Process check_Do cctx_done json_Marshal c pr)) = length pr + 1
   \<and> Errors (last (snd (Process check_Do cctx_done json_Marshal c pr))) =
       (if Passed (Summary (check_Do (checkList c))) then []
        else [\<lparr>Type = CheckFailed, Msg = ''check was failed, please see detail''\<rparr>])
   \<and> IsCanceled (last (snd (Process check_Do cctx_done json_Marshal c pr))) = cctx_done
   \<and> detail (fst (Process check_Do cctx_done json_Marshal c pr)) =
       Some (check_Do (checkList c))"
  by (simp add: Process_def Let_def NewProcessError_def)




text \<open>
  Claim C8 fails on the code.  On a checker that has not completed a \<open>Process\<close> the
  stored result is nil and \<open>Status\<close> dereferences it: a panic.  After a \<open>Process\<close>,
  passed or failed, \<open>Status\<close> returns the aggregate that \<open>Process\<close> stored.
\<close>

theorem Status_before_Process_panics:
  "Status json_Marshal (NewChecker cfgs) = Inl Nil_dereference
   \<and> Status json_Marshal (fst (Process check_Do cctx_done json_Marshal' c pr)) =
       Inr \<lparr>status_Passed = Passed (Summary (check_Do (checkList c))),
            status_Total = ucast (Total (Summary (check_Do (checkList c)))),
            status_Successful = ucast (Successful (Summary (check_Do (checkList c)))),
            status_Failed = ucast (Failed (Summary (check_Do (checkList c)))),
            status_Warning = ucast (Warning (Summary (check_Do (checkList c)))),
            status_Detail =
              (case json_Marshal (check_Do (checkList c)) of
                 Inr raw \<Rightarrow> raw | Inl err \<Rightarrow> [])\<rparr>"
  by (simp add: Status_def NewChecker_def Process_def Let_def)

end
